theory Spec2Isabelle
  imports Main
begin

section \<open>Data model of the chat-session sidebar\<close>

text \<open>
  The embedding follows \<^verbatim>\<open>src/app/component/sidebar.tsx\<close> and
  \<^verbatim>\<open>src/lib/mail.ts\<close>. A JavaScript string is modelled as a \<open>string\<close> whose
  elements stand for its code units, so that \<open>take 40\<close> is \<^verbatim>\<open>slice(0, 40)\<close>.
  A value that may be \<^verbatim>\<open>null\<close> or \<^verbatim>\<open>undefined\<close> is an \<open>option\<close>.
\<close>

record ChatSession =
  session_id :: int
  title :: "string option"
  created_at :: "string option"

text \<open>
  The inputs of one render of the component: \<^verbatim>\<open>userId\<close> comes from the
  authentication hook (typed \<^verbatim>\<open>any\<close> in the source, a string here), the other
  three are props. The handlers of a render close over these values.
\<close>

record SidebarProps =
  userId :: "string option"
  currentSessionId :: "int option"
  apiBaseUrl :: string
  lastUserMessage :: "string option"

text \<open>
  JavaScript truthiness, as the guards \<^verbatim>\<open>!userId\<close>, \<^verbatim>\<open>!lastUserMessage\<close>,
  \<^verbatim>\<open>!session.title\<close> (strings) and \<^verbatim>\<open>!currentSessionId\<close>, \<^verbatim>\<open>if (sid)\<close>
  (numbers) read it: \<^verbatim>\<open>null\<close>, \<^verbatim>\<open>undefined\<close>, the empty string and \<open>0\<close> are falsy.
\<close>

definition truthy_str :: "string option \<Rightarrow> bool" where
  "truthy_str v = (case v of None \<Rightarrow> False | Some s \<Rightarrow> s \<noteq> [])"

definition truthy_num :: "int option \<Rightarrow> bool" where
  "truthy_num v = (case v of None \<Rightarrow> False | Some n \<Rightarrow> n \<noteq> 0)"

datatype format = pdf | docx | csv

text \<open>
  The remote calls the component makes, one constructor per URL template:
  \<^item> \<open>GetSessions base uid\<close>: \<^verbatim>\<open>GET ${apiBaseUrl}/chat/sessions/${userId}\<close>
  \<^item> \<open>GetMessages base sid\<close>: \<^verbatim>\<open>GET ${apiBaseUrl}/chat/messages/${sessionId}\<close>
  \<^item> \<open>PostSession base fields\<close>: \<^verbatim>\<open>POST ${apiBaseUrl}/chat/session\<close> with the
    multipart form fields in the order they were appended
  \<^item> \<open>PatchSession base sid t\<close>: \<^verbatim>\<open>PATCH ${apiBaseUrl}/chat/session/${currentSessionId}\<close>
    with body \<^verbatim>\<open>{ title: t }\<close>
  \<^item> \<open>GetDownload base sid f\<close>:
    \<^verbatim>\<open>GET ${apiBaseUrl}/chat/download/${currentSessionId}?format=${format}\<close>
\<close>

datatype request =
    GetSessions string string
  | GetMessages string int
  | PostSession string "(string \<times> string) list"
  | PatchSession string int string
  | GetDownload string int format

text \<open>A record of the message endpoint, and the pair handed to the selection callback.\<close>

record ApiMessage =
  api_role :: string
  content :: string

record ChatMessage =
  role :: string
  msg_text :: string

text \<open>
  Everything the component does to the outside world, in the order it does it: a remote
  call, a blocking \<^verbatim>\<open>alert\<close>, a \<^verbatim>\<open>console.error\<close>, a call of the
  \<^verbatim>\<open>onSelectSession\<close> prop, and the click on the temporary download link
  (\<open>SaveFile sid f blob\<close> saves \<^verbatim>\<open>chat_session_${sid}.${f}\<close>).
  The \<^verbatim>\<open>onSelectSession\<close> prop, \<^verbatim>\<open>alert\<close> and the DOM calls are taken to return
  normally.
\<close>

datatype effect =
    Http request
  | Alert string
  | ConsoleError string
  | OnSelectSession int "ChatMessage list"
  | SaveFile int format string

text \<open>
  What the transport answers to a request (\<open>reply\<close>), and what the code awaiting a
  request made with a cancel token observes (\<open>outcome\<close>): \<open>Cancelled\<close> is a rejection
  for which \<^verbatim>\<open>axios.isCancel\<close> holds.
\<close>

datatype 'a reply = Resolved 'a | Rejected string

datatype 'a outcome = Fulfilled 'a | Failed string | Cancelled

text \<open>The body of the session-list response: \<^verbatim>\<open>Array.isArray(res.data)\<close> or not.\<close>

datatype sessions_body = SessionArray "ChatSession list" | NotAnArray

text \<open>
  The component's state: the five \<^verbatim>\<open>useState\<close> cells and \<^verbatim>\<open>cancelRef\<close>, followed
  by the part of the environment the handlers act on. A \<^verbatim>\<open>CancelTokenSource\<close> is
  identified by a number; \<open>next_source\<close> is the identity the next call of
  \<^verbatim>\<open>axios.CancelToken.source()\<close> returns, \<open>in_flight\<close> holds the sources of the
  session-list requests that have not settled, \<open>cancelled\<close> the sources on which
  \<^verbatim>\<open>cancel\<close> was called, and \<open>effects\<close> the effects so far.
\<close>

record Sidebar =
  sessions :: "ChatSession list"
  loading :: bool
  error :: "string option"
  creating :: bool
  expand :: bool
  cancelRef :: "nat option"
  next_source :: nat
  in_flight :: "nat list"
  cancelled :: "nat list"
  effects :: "effect list"

text \<open>The state on mount (the \<^verbatim>\<open>useState\<close> and \<^verbatim>\<open>useRef\<close> initial values).\<close>

definition mounted :: Sidebar where
  "mounted = \<lparr> sessions = [], loading = False, error = None, creating = False,
               expand = True, cancelRef = None, next_source = 0, in_flight = [],
               cancelled = [], effects = [] \<rparr>"

definition emit :: "effect list \<Rightarrow> Sidebar \<Rightarrow> Sidebar" where
  "emit es s = s\<lparr> effects := effects s @ es \<rparr>"

section \<open>fetchSessions\<close>

text \<open>
  \<^verbatim>\<open>fetchSessions\<close> up to its \<^verbatim>\<open>await\<close>: the guard on the user identity, the
  cancellation of the source held in \<^verbatim>\<open>cancelRef\<close>, the new source,
  \<^verbatim>\<open>setLoading(true)\<close>, \<^verbatim>\<open>setError(null)\<close> and the request.
\<close>

definition fetchSessions_begin :: "SidebarProps \<Rightarrow> Sidebar \<Rightarrow> Sidebar" where
  "fetchSessions_begin p s =
     (case userId p of
        None \<Rightarrow> s
      | Some u \<Rightarrow>
          if u = [] then s
          else emit [Http (GetSessions (apiBaseUrl p) u)]
                 (s\<lparr> cancelled := (case cancelRef s of
                                      None \<Rightarrow> cancelled s
                                    | Some old \<Rightarrow> old # cancelled s),
                     cancelRef := Some (next_source s),
                     next_source := Suc (next_source s),
                     in_flight := next_source s # in_flight s,
                     loading := True,
                     error := None \<rparr>))"

text \<open>
  \<^verbatim>\<open>fetchSessions\<close> after its \<^verbatim>\<open>await\<close>: the rest of the \<^verbatim>\<open>try\<close> block, the
  \<^verbatim>\<open>catch\<close> block with its early return on a cancellation, and the \<^verbatim>\<open>finally\<close>
  block, which runs on all three paths.
\<close>

definition fetchSessions_settle :: "sessions_body outcome \<Rightarrow> Sidebar \<Rightarrow> Sidebar" where
  "fetchSessions_settle out s =
     (case out of
        Fulfilled body \<Rightarrow>
          s\<lparr> sessions := (case body of SessionArray xs \<Rightarrow> xs | NotAnArray \<Rightarrow> []),
             loading := False \<rparr>
      | Cancelled \<Rightarrow> s\<lparr> loading := False \<rparr>
      | Failed e \<Rightarrow>
          (emit [ConsoleError ''Error fetching sessions:''] s)
            \<lparr> error := Some ''Could not load sessions'',
              sessions := [],
              loading := False \<rparr>)"

text \<open>
  The cancel-token contract of the HTTP client: a request whose source was cancelled
  before it settled rejects with a cancellation, whatever the transport answers.
\<close>

definition observe :: "nat list \<Rightarrow> nat \<Rightarrow> 'a reply \<Rightarrow> 'a outcome" where
  "observe cs tok r =
     (if tok \<in> set cs then Cancelled
      else case r of Resolved x \<Rightarrow> Fulfilled x | Rejected e \<Rightarrow> Failed e)"

text \<open>
  The events of the session-list synchronisation: a call of \<^verbatim>\<open>fetchSessions\<close> in a
  render with the given inputs, and the settlement of the in-flight request made with
  source \<open>tok\<close>, to which the transport answers \<open>r\<close>. A settlement for a source with no
  request in flight is no event of the component.
\<close>

datatype event = Call SidebarProps | Settle nat "sessions_body reply"

definition step :: "event \<Rightarrow> Sidebar \<Rightarrow> Sidebar" where
  "step e s =
     (case e of
        Call p \<Rightarrow> fetchSessions_begin p s
      | Settle tok r \<Rightarrow>
          if tok \<in> set (in_flight s)
          then fetchSessions_settle (observe (cancelled s) tok r)
                 (s\<lparr> in_flight := removeAll tok (in_flight s) \<rparr>)
          else s)"

definition run :: "event list \<Rightarrow> Sidebar \<Rightarrow> Sidebar" where
  "run evs s = foldl (\<lambda>t e. step e t) s evs"

text \<open>
  Read off the event sequence alone: whether a call passes the identity guard, the
  source of the request each call makes (the calls that pass the guard take the sources
  \<open>0, 1, 2, ...\<close> in order, the others make no request), the source of the most recent
  call, and the source of the most recent call that made a request.
\<close>

definition has_identity :: "event \<Rightarrow> bool" where
  "has_identity e = (case e of Call p \<Rightarrow> truthy_str (userId p) | Settle tok r \<Rightarrow> False)"

fun call_sources :: "nat \<Rightarrow> event list \<Rightarrow> nat option list" where
  "call_sources n [] = []"
| "call_sources n (Call p # evs) =
     (if truthy_str (userId p) then Some n # call_sources (Suc n) evs
      else None # call_sources n evs)"
| "call_sources n (Settle tok r # evs) = call_sources n evs"

definition latest_call :: "event list \<Rightarrow> nat option" where
  "latest_call evs =
     (case rev (call_sources 0 evs) of [] \<Rightarrow> None | c # cs \<Rightarrow> c)"

definition latest_request :: "event list \<Rightarrow> nat option" where
  "latest_request evs =
     (case rev (filter (\<lambda>c. c \<noteq> None) (call_sources 0 evs)) of [] \<Rightarrow> None | c # cs \<Rightarrow> c)"

text \<open>
  One whole call of \<^verbatim>\<open>fetchSessions\<close> as its caller awaits it: the part before the
  \<^verbatim>\<open>await\<close>, then the settlement of its own request with what the awaiting code
  observes. A call that stops at the guard returns at once.
\<close>

definition fetchSessions :: "SidebarProps \<Rightarrow> sessions_body outcome \<Rightarrow> Sidebar \<Rightarrow> Sidebar" where
  "fetchSessions p out s =
     (if truthy_str (userId p)
      then let s1 = fetchSessions_begin p s
           in fetchSessions_settle out
                (s1\<lparr> in_flight := removeAll (next_source s) (in_flight s1) \<rparr>)
      else s)"

section \<open>Auto-title\<close>

text \<open>
  The effect that renames a session after the first user message. The title patch is
  sent and not awaited; its \<^verbatim>\<open>catch\<close> handler only logs, so the reply \<open>r\<close> decides
  nothing but that log line. \<^verbatim>\<open>setSessions\<close> is given an updater, applied here to
  the list the effect has read.
\<close>

definition autoTitle :: "SidebarProps \<Rightarrow> unit reply \<Rightarrow> Sidebar \<Rightarrow> Sidebar" where
  "autoTitle p r s =
     (case (lastUserMessage p, currentSessionId p) of
        (Some m, Some cur) \<Rightarrow>
          if m = [] \<or> cur = 0 then s
          else (case find (\<lambda>x. session_id x = cur) (sessions s) of
                  None \<Rightarrow> s
                | Some session \<Rightarrow>
                    if title session = Some ''New Chat'' \<or> \<not> truthy_str (title session)
                    then let newTitle = take 40 m
                         in (emit (Http (PatchSession (apiBaseUrl p) cur newTitle) #
                                   (case r of
                                      Resolved u \<Rightarrow> []
                                    | Rejected e \<Rightarrow> [ConsoleError ''Error updating title:'']))
                               s)
                            \<lparr> sessions :=
                                map (\<lambda>x. if session_id x = cur
                                         then x\<lparr> title := Some newTitle \<rparr> else x)
                                    (sessions s) \<rparr>
                    else s)
      | _ \<Rightarrow> s)"

section \<open>handleSelect\<close>

text \<open>
  The body of the message response: an array of records, a falsy value (replaced by
  \<^verbatim>\<open>[]\<close> through \<^verbatim>\<open>res.data || []\<close>), or a truthy value on which the mapping
  throws inside the \<^verbatim>\<open>try\<close> block (it has no \<^verbatim>\<open>map\<close>, or an element of it is
  \<^verbatim>\<open>null\<close>), so that the \<^verbatim>\<open>catch\<close> block runs.
\<close>

datatype messages_body = MessageArray "ApiMessage list" | NoBody | NotMappable

definition to_chat_message :: "ApiMessage \<Rightarrow> ChatMessage" where
  "to_chat_message m = \<lparr> role = api_role m, msg_text = content m \<rparr>"

definition handleSelect :: "SidebarProps \<Rightarrow> int \<Rightarrow> messages_body reply \<Rightarrow> Sidebar \<Rightarrow> Sidebar" where
  "handleSelect p sessionId r s =
     (let s1 = emit [Http (GetMessages (apiBaseUrl p) sessionId)] s;
          caught = [ConsoleError ''Error fetching messages:'', OnSelectSession sessionId []]
      in (case r of
            Resolved body \<Rightarrow>
              (case body of
                 MessageArray ms \<Rightarrow> emit [OnSelectSession sessionId (map to_chat_message ms)] s1
               | NoBody \<Rightarrow> emit [OnSelectSession sessionId []] s1
               | NotMappable \<Rightarrow> emit caught s1)
          | Rejected e \<Rightarrow> emit caught s1))"

section \<open>handleCreate\<close>

text \<open>
  The reply to the creation request carries \<^verbatim>\<open>res.data?.session_id\<close>, which may be
  missing. \<open>out\<close> is what the awaited \<^verbatim>\<open>fetchSessions()\<close> observes of its own request.
\<close>

definition handleCreate ::
  "SidebarProps \<Rightarrow> int option reply \<Rightarrow> sessions_body outcome \<Rightarrow> Sidebar \<Rightarrow> Sidebar" where
  "handleCreate p r out s =
     (case userId p of
        None \<Rightarrow> s
      | Some u \<Rightarrow>
          if u = [] then s
          else let s1 = emit [Http (PostSession (apiBaseUrl p)
                                      [(''user_id'', u), (''title'', ''New Chat'')])]
                          (s\<lparr> creating := True \<rparr>)
               in (case r of
                     Resolved sid \<Rightarrow>
                       (case sid of
                          None \<Rightarrow> s1
                        | Some n \<Rightarrow>
                            if n = 0 then s1
                            else emit [OnSelectSession n []] (fetchSessions p out s1))
                   | Rejected e \<Rightarrow> emit [ConsoleError ''Error creating new chat session:''] s1)
                  \<lparr> creating := False \<rparr>)"

section \<open>handleDownload\<close>

definition handleDownload :: "format \<Rightarrow> SidebarProps \<Rightarrow> string reply \<Rightarrow> Sidebar \<Rightarrow> Sidebar" where
  "handleDownload f p r s =
     (case currentSessionId p of
        None \<Rightarrow> emit [Alert ''Please select a chat session to download.''] s
      | Some sid \<Rightarrow>
          if sid = 0 then emit [Alert ''Please select a chat session to download.''] s
          else (let s1 = emit [Http (GetDownload (apiBaseUrl p) sid f)] s
                in (case r of
                      Resolved blob \<Rightarrow> emit [SaveFile sid f blob] s1
                    | Rejected e \<Rightarrow>
                        emit [ConsoleError ''Error downloading file:'',
                              Alert ''Failed to download chat history.''] s1)))"

text \<open>The remote calls among a list of effects.\<close>

definition requests :: "effect list \<Rightarrow> request list" where
  "requests es = concat (map (\<lambda>e. case e of Http q \<Rightarrow> [q] | _ \<Rightarrow> []) es)"

text \<open>The calls of the selection callback among a list of effects.\<close>

definition selections :: "effect list \<Rightarrow> (int \<times> ChatMessage list) list" where
  "selections es =
     concat (map (\<lambda>e. case e of OnSelectSession n ms \<Rightarrow> [(n, ms)] | _ \<Rightarrow> []) es)"

text \<open>The user-facing alerts among a list of effects.\<close>

definition alerts :: "effect list \<Rightarrow> string list" where
  "alerts es = concat (map (\<lambda>e. case e of Alert a \<Rightarrow> [a] | _ \<Rightarrow> []) es)"

section \<open>The mail helper\<close>

text \<open>
  \<^verbatim>\<open>process.env\<close> is a map from names to strings. The port handed to
  \<^verbatim>\<open>createTransport\<close> is \<^verbatim>\<open>Number(x)\<close> for \<open>x\<close> a number literal
  (\<open>NumberOfLiteral\<close>, the literal itself) or a string of the environment
  (\<open>NumberOfString\<close>, the engine's conversion of that string).
\<close>

type_synonym env = "string \<rightharpoonup> string"

datatype port_value = NumberOfLiteral int | NumberOfString string

record TransportOptions =
  host :: "string option"
  port :: port_value
  auth_user :: "string option"
  auth_pass :: "string option"

definition transporter :: "env \<Rightarrow> TransportOptions" where
  "transporter e =
     \<lparr> host = e ''MAIL_HOST'',
       port = (if truthy_str (e ''MAIL_PORT'')
               then (case e ''MAIL_PORT'' of
                       Some v \<Rightarrow> NumberOfString v
                     | None \<Rightarrow> NumberOfLiteral 587)
               else NumberOfLiteral 587),
       auth_user = e ''MAIL_USER'',
       auth_pass = e ''MAIL_PASS'' \<rparr>"

record MailMessage =
  from_addr :: "string option"
  to_addr :: string
  subject :: string
  text_body :: string
  html :: "string option"

text \<open>
  \<^verbatim>\<open>sendEmail\<close>: the message handed to \<^verbatim>\<open>transporter.sendMail\<close>, and the result,
  which is the transport's own (its acknowledgement, or its rejection passed on).
\<close>

definition sendEmail ::
  "env \<Rightarrow> string \<Rightarrow> string \<Rightarrow> string \<Rightarrow> string option \<Rightarrow> 'i reply \<Rightarrow> MailMessage \<times> 'i reply" where
  "sendEmail e to subj txt htm r =
     (\<lparr> from_addr = e ''MAIL_FROM'', to_addr = to, subject = subj,
        text_body = txt, html = htm \<rparr>, r)"

section \<open>The synchronisation invariant and the inputs of the examples\<close>

text \<open>The number of calls in an event sequence that pass the identity guard.\<close>

definition issued :: "event list \<Rightarrow> nat" where
  "issued evs = length (filter has_identity evs)"

text \<open>
  What holds of the state after \<open>n\<close> calls have passed the guard: the next source is
  \<open>n\<close>, \<^verbatim>\<open>cancelRef\<close> holds the source of the last such call, and every request in
  flight other than the one of \<^verbatim>\<open>cancelRef\<close> has been cancelled.
\<close>

definition sync_inv :: "nat \<Rightarrow> Sidebar \<Rightarrow> bool" where
  "sync_inv n s =
     (next_source s = n \<and>
      cancelRef s = (if n = 0 then None else Some (n - 1)) \<and>
      (\<forall>t \<in> set (in_flight s).
          t < n \<and> (t \<in> set (cancelled s) \<or> cancelRef s = Some t)))"

text \<open>
  The inputs of the specification's example: two sessions, the first untitled, and the
  weather message, in a render with a signed-in user and session 1 selected; and the
  same render with no user.
\<close>

definition session1 :: ChatSession where
  "session1 = \<lparr> session_id = 1, title = None, created_at = None \<rparr>"

definition session2 :: ChatSession where
  "session2 = \<lparr> session_id = 2, title = Some ''Trip plan'', created_at = None \<rparr>"

definition weather_message :: string where
  "weather_message = ''What's the weather tomorrow in Yangon and will it rain all week long''"

definition signed_in :: SidebarProps where
  "signed_in = \<lparr> userId = Some ''u1'', currentSessionId = Some 1,
                  apiBaseUrl = ''http://localhost:8000'',
                  lastUserMessage = Some weather_message \<rparr>"

definition signed_out :: SidebarProps where
  "signed_out = signed_in\<lparr> userId := None \<rparr>"

definition listed :: Sidebar where
  "listed = mounted\<lparr> sessions := [session1, session2] \<rparr>"

section \<open>Properties of fetchSessions\<close>

lemma truthy_str_Some [simp]: "truthy_str (Some u) = (u \<noteq> [])"
  by (simp add: truthy_str_def)

lemma truthy_str_None [simp]: "truthy_str None = False"
  by (simp add: truthy_str_def)

lemma truthy_num_Some [simp]: "truthy_num (Some n) = (n \<noteq> 0)"
  by (simp add: truthy_num_def)

lemma truthy_num_None [simp]: "truthy_num None = False"
  by (simp add: truthy_num_def)

lemma sessions_emit [simp]: "sessions (emit es s) = sessions s"
  by (simp add: emit_def)

lemma loading_emit [simp]: "loading (emit es s) = loading s"
  by (simp add: emit_def)

lemma error_emit [simp]: "error (emit es s) = error s"
  by (simp add: emit_def)

lemma creating_emit [simp]: "creating (emit es s) = creating s"
  by (simp add: emit_def)

lemma effects_emit [simp]: "effects (emit es s) = effects s @ es"
  by (simp add: emit_def)

lemma settle_fulfilled_sessions:
  "sessions (fetchSessions_settle (Fulfilled body) s) =
     (case body of SessionArray xs \<Rightarrow> xs | NotAnArray \<Rightarrow> [])"
  by (simp add: fetchSessions_settle_def)

lemma settle_failed:
  "error (fetchSessions_settle (Failed e) s) = Some ''Could not load sessions''"
  "sessions (fetchSessions_settle (Failed e) s) = []"
  by (simp_all add: fetchSessions_settle_def)

lemma settle_loading: "loading (fetchSessions_settle out s) = False"
  by (cases out) (simp_all add: fetchSessions_settle_def)

lemma settle_cancelled_frame:
  "sessions (fetchSessions_settle Cancelled s) = sessions s"
  "error (fetchSessions_settle Cancelled s) = error s"
  by (simp_all add: fetchSessions_settle_def)

text \<open>
  C5. On a successful response, \<^verbatim>\<open>fetchSessions\<close> replaces the session list, whatever
  it held, by the returned collection, and by the empty list when the response body is
  not an array. This holds for the continuation after the \<^verbatim>\<open>await\<close> in any state, and
  for a whole call made with a user identity.
\<close>

theorem fetchSessions_success_replaces:
  "sessions (fetchSessions_settle (Fulfilled (SessionArray xs)) s) = xs \<and>
   sessions (fetchSessions_settle (Fulfilled NotAnArray) s) = [] \<and>
   (truthy_str (userId p) \<longrightarrow>
      sessions (fetchSessions p (Fulfilled (SessionArray xs)) s) = xs \<and>
      sessions (fetchSessions p (Fulfilled NotAnArray) s) = [])"
  by (simp add: fetchSessions_def Let_def settle_fulfilled_sessions)

theorem fetchSessions_success_replaces_witness:
  "truthy_str (userId signed_in) \<and>
   sessions (fetchSessions signed_in (Fulfilled (SessionArray [session2])) listed) =
     [session2] \<and>
   sessions (fetchSessions signed_in (Fulfilled NotAnArray) listed) = []"
  using fetchSessions_success_replaces [of "[session2]" listed signed_in]
  by (simp add: signed_in_def)

text \<open>
  C6. When the request fails with anything but a cancellation, \<open>error\<close> is set to the
  same fixed message for every failure and the session list is emptied; and on every
  outcome (success, failure, swallowed cancellation) \<open>loading\<close> ends as false. This
  holds for the continuation after the \<^verbatim>\<open>await\<close> in any state, and for a whole call
  made with a user identity.
\<close>

theorem fetchSessions_failure_and_loading:
  "error (fetchSessions_settle (Failed e) s) = Some ''Could not load sessions'' \<and>
   sessions (fetchSessions_settle (Failed e) s) = [] \<and>
   loading (fetchSessions_settle out s) = False \<and>
   (truthy_str (userId p) \<longrightarrow>
      error (fetchSessions p (Failed e) s) = Some ''Could not load sessions'' \<and>
      sessions (fetchSessions p (Failed e) s) = [] \<and>
      loading (fetchSessions p out s) = False)"
  by (simp add: fetchSessions_def Let_def settle_failed settle_loading)

theorem fetchSessions_failure_and_loading_witness:
  "truthy_str (userId signed_in) \<and>
   error (fetchSessions signed_in (Failed ''Network Error'') listed) =
     Some ''Could not load sessions'' \<and>
   sessions (fetchSessions signed_in (Failed ''Network Error'') listed) = [] \<and>
   loading (fetchSessions signed_in Cancelled listed) = False"
  using fetchSessions_failure_and_loading [of "''Network Error''" listed Cancelled signed_in]
  by (simp add: signed_in_def)

section \<open>Superseded requests\<close>

lemma run_snoc: "run (evs @ [e]) s = step e (run evs s)"
  by (simp add: run_def)

lemma run_Nil: "run [] s = s"
  by (simp add: run_def)

lemma has_identity_simps [simp]:
  "has_identity (Call p) = truthy_str (userId p)"
  "has_identity (Settle tok r) = False"
  by (simp_all add: has_identity_def)

lemma issued_snoc:
  "issued (evs @ [e]) = (if has_identity e then Suc (issued evs) else issued evs)"
  by (simp add: issued_def)

lemma sync_inv_begin:
  assumes "sync_inv n s"
  shows "sync_inv (if truthy_str (userId p) then Suc n else n) (fetchSessions_begin p s)"
  using assms
  by (auto simp: sync_inv_def fetchSessions_begin_def emit_def split: option.splits)

lemma sync_inv_settle:
  assumes "sync_inv n s"
  shows "sync_inv n (step (Settle tok r) s)"
  using assms
  by (auto simp: sync_inv_def step_def fetchSessions_settle_def emit_def
           split: outcome.splits)

lemma sync_inv_step:
  assumes "sync_inv n s"
  shows "sync_inv (if has_identity e then Suc n else n) (step e s)"
proof (cases e)
  case (Call p)
  then show ?thesis
    using sync_inv_begin [OF assms, of p] by (simp add: step_def)
next
  case (Settle tok r)
  then show ?thesis
    using sync_inv_settle [OF assms, of tok r] by simp
qed

text \<open>The invariant holds after every event sequence, started on mount.\<close>

lemma sync_inv_run: "sync_inv (issued evs) (run evs mounted)"
proof (induction evs rule: rev_induct)
  case Nil
  show ?case by (simp add: run_Nil issued_def sync_inv_def mounted_def)
next
  case (snoc e evs)
  show ?case
    using sync_inv_step [OF snoc.IH, of e] by (simp add: run_snoc issued_snoc)
qed

lemma requests_of_calls:
  "filter (\<lambda>c. c \<noteq> None) (call_sources n evs) = map Some [n ..< n + issued evs]"
proof (induction n evs rule: call_sources.induct)
  case (1 n)
  show ?case by (simp add: issued_def)
next
  case (2 n p evs)
  show ?case
  proof (cases "truthy_str (userId p)")
    case True
    have "[n ..< n + Suc (issued evs)] = n # [Suc n ..< Suc n + issued evs]"
      by (simp add: upt_conv_Cons)
    with True 2 show ?thesis by (simp add: issued_def del: upt_Suc)
  next
    case False
    with 2 show ?thesis by (simp add: issued_def)
  qed
next
  case (3 n tok r evs)
  then show ?case by (simp add: issued_def)
qed

lemma latest_request_issued:
  "latest_request evs = (if issued evs = 0 then None else Some (issued evs - 1))"
  unfolding latest_request_def requests_of_calls
  by (cases "issued evs") (simp_all add: rev_map)

lemma cancelled_settle_frame:
  assumes "tok \<in> set (cancelled s)"
  shows "sessions (step (Settle tok r) s) = sessions s \<and>
         error (step (Settle tok r) s) = error s"
  using assms by (simp add: step_def observe_def settle_cancelled_frame)

lemma settle_changes_only_current:
  assumes inv: "sync_inv n s"
    and ch: "sessions (step (Settle tok r) s) \<noteq> sessions s \<or>
             error (step (Settle tok r) s) \<noteq> error s"
  shows "cancelRef s = Some tok"
proof -
  from ch have fl: "tok \<in> set (in_flight s)"
    by (auto simp: step_def split: if_splits)
  have nc: "tok \<notin> set (cancelled s)"
  proof
    assume "tok \<in> set (cancelled s)"
    then have "sessions (step (Settle tok r) s) = sessions s \<and>
               error (step (Settle tok r) s) = error s"
      by (rule cancelled_settle_frame)
    with ch show False by simp
  qed
  from inv fl nc show ?thesis by (auto simp: sync_inv_def)
qed

lemma call_cancels_in_flight:
  assumes inv: "sync_inv n s" and id: "truthy_str (userId p)"
  shows "set (in_flight s) \<subseteq> set (cancelled (step (Call p) s))"
  using assms
  by (auto simp: sync_inv_def step_def fetchSessions_begin_def emit_def
           split: option.splits if_splits)

lemma guarded_call_frame:
  assumes "\<not> truthy_str (userId q)"
  shows "step (Call q) t = t"
  using assms
  by (simp add: step_def fetchSessions_begin_def truthy_str_def split: option.splits)

text \<open>
  C1, as the code has it. After any sequence of calls and settlements since mount:
  \<^item> a settlement that changes \<open>sessions\<close> or \<open>error\<close> is the settlement of the request
    of the most recent call that passed the identity guard;
  \<^item> a call that passes the identity guard leaves every request that was in flight
    cancelled;
  \<^item> in any state, the settlement of a cancelled request changes neither \<open>sessions\<close>
    nor \<open>error\<close>;
  \<^item> in any state, a call made without a user identity returns at the guard and
    leaves the whole state as it is: it makes no request, cancels nothing, and every
    request in flight stays in flight.
\<close>

theorem only_latest_request_reflected:
  "(sessions (step (Settle tok r) (run evs mounted)) \<noteq> sessions (run evs mounted) \<or>
    error (step (Settle tok r) (run evs mounted)) \<noteq> error (run evs mounted)
      \<longrightarrow> latest_request evs = Some tok) \<and>
   (truthy_str (userId p)
      \<longrightarrow> set (in_flight (run evs mounted))
            \<subseteq> set (cancelled (step (Call p) (run evs mounted)))) \<and>
   (tok' \<in> set (cancelled s)
      \<longrightarrow> sessions (step (Settle tok' r') s) = sessions s \<and>
          error (step (Settle tok' r') s) = error s) \<and>
   (\<not> truthy_str (userId q)
      \<longrightarrow> step (Call q) t = t \<and>
          effects (step (Call q) t) = effects t \<and>
          cancelled (step (Call q) t) = cancelled t \<and>
          in_flight (step (Call q) t) = in_flight t \<and>
          cancelRef (step (Call q) t) = cancelRef t)"
proof (intro conjI impI)
  assume ch: "sessions (step (Settle tok r) (run evs mounted)) \<noteq> sessions (run evs mounted) \<or>
    error (step (Settle tok r) (run evs mounted)) \<noteq> error (run evs mounted)"
  have inv: "sync_inv (issued evs) (run evs mounted)"
    by (rule sync_inv_run)
  from settle_changes_only_current [OF inv ch]
  have "cancelRef (run evs mounted) = Some tok" .
  with inv show "latest_request evs = Some tok"
    by (simp add: sync_inv_def latest_request_issued split: if_splits)
next
  assume "truthy_str (userId p)"
  with sync_inv_run
  show "set (in_flight (run evs mounted))
          \<subseteq> set (cancelled (step (Call p) (run evs mounted)))"
    by (rule call_cancels_in_flight)
next
  assume "tok' \<in> set (cancelled s)"
  then show "sessions (step (Settle tok' r') s) = sessions s"
    by (simp add: cancelled_settle_frame)
next
  assume "tok' \<in> set (cancelled s)"
  then show "error (step (Settle tok' r') s) = error s"
    by (simp add: cancelled_settle_frame)
next
  assume "\<not> truthy_str (userId q)"
  then show "step (Call q) t = t"
    by (rule guarded_call_frame)
next
  assume "\<not> truthy_str (userId q)"
  then show "effects (step (Call q) t) = effects t"
    by (simp add: guarded_call_frame)
next
  assume "\<not> truthy_str (userId q)"
  then show "cancelled (step (Call q) t) = cancelled t"
    by (simp add: guarded_call_frame)
next
  assume "\<not> truthy_str (userId q)"
  then show "in_flight (step (Call q) t) = in_flight t"
    by (simp add: guarded_call_frame)
next
  assume "\<not> truthy_str (userId q)"
  then show "cancelRef (step (Call q) t) = cancelRef t"
    by (simp add: guarded_call_frame)
qed

text \<open>
  Two calls with a user, then the second request answers with a list: the list is
  shown, the second call had cancelled the first request, and the late settlement of
  the first request, answering with a failure, changes nothing. And a call without a
  user, made while the first request is in flight, changes nothing: that request is
  still in flight and not cancelled.
\<close>

theorem only_latest_request_reflected_witness:
  "sessions (step (Settle 1 (Resolved (SessionArray [session2])))
               (run [Call signed_in, Call signed_in] mounted))
     \<noteq> sessions (run [Call signed_in, Call signed_in] mounted) \<and>
   latest_request [Call signed_in, Call signed_in] = Some 1 \<and>
   truthy_str (userId signed_in) \<and>
   set (in_flight (run [Call signed_in] mounted))
     \<subseteq> set (cancelled (step (Call signed_in) (run [Call signed_in] mounted))) \<and>
   0 \<in> set (cancelled (run [Call signed_in, Call signed_in,
                              Settle 1 (Resolved (SessionArray [session2]))] mounted)) \<and>
   sessions (step (Settle 0 (Rejected ''timeout''))
               (run [Call signed_in, Call signed_in,
                     Settle 1 (Resolved (SessionArray [session2]))] mounted)) = [session2] \<and>
   error (step (Settle 0 (Rejected ''timeout''))
            (run [Call signed_in, Call signed_in,
                  Settle 1 (Resolved (SessionArray [session2]))] mounted)) = None \<and>
   \<not> truthy_str (userId signed_out) \<and>
   step (Call signed_out) (run [Call signed_in] mounted) = run [Call signed_in] mounted \<and>
   in_flight (step (Call signed_out) (run [Call signed_in] mounted)) = [0] \<and>
   cancelled (step (Call signed_out) (run [Call signed_in] mounted)) = []"
  using
    only_latest_request_reflected
      [of 1 "Resolved (SessionArray [session2])" "[Call signed_in, Call signed_in]"
          signed_in 0
          "run [Call signed_in, Call signed_in,
                Settle 1 (Resolved (SessionArray [session2]))] mounted"
          "Rejected ''timeout''" signed_out "run [Call signed_in] mounted"]
    only_latest_request_reflected
      [of 1 "Resolved (SessionArray [session2])" "[Call signed_in]"
          signed_in 0 mounted "Rejected ''timeout''" signed_out mounted]
  by (simp add: run_def step_def fetchSessions_begin_def fetchSessions_settle_def
                observe_def emit_def signed_in_def signed_out_def mounted_def)

text \<open>
  C1 as stated fails where a call is made without a user identity (the user signs out
  while the list is loading): that call returns at the guard and cancels nothing, so
  the request of the earlier call stays in flight, uncancelled, and its answer is
  shown although it is not the request of the most recent call.
\<close>

theorem superseded_by_guarded_call_counterexample:
  "latest_call [Call signed_in, Call signed_out] \<noteq> Some 0 \<and>
   0 \<in> set (in_flight (run [Call signed_in, Call signed_out] mounted)) \<and>
   0 \<notin> set (cancelled (run [Call signed_in, Call signed_out] mounted)) \<and>
   sessions (run [Call signed_in, Call signed_out] mounted) = [] \<and>
   sessions (run [Call signed_in, Call signed_out,
                  Settle 0 (Resolved (SessionArray [session2]))] mounted) = [session2]"
  by (simp add: run_def step_def fetchSessions_begin_def fetchSessions_settle_def
                observe_def emit_def latest_call_def signed_in_def signed_out_def mounted_def)

section \<open>Properties of the auto-title effect\<close>

lemma requests_append [simp]: "requests (xs @ ys) = requests xs @ requests ys"
  by (simp add: requests_def)

lemma selections_append [simp]: "selections (xs @ ys) = selections xs @ selections ys"
  by (simp add: selections_def)

lemma alerts_append [simp]: "alerts (xs @ ys) = alerts xs @ alerts ys"
  by (simp add: alerts_def)

lemma requests_simps [simp]:
  "requests [] = []"
  "requests (Http q # es) = q # requests es"
  "requests (Alert a # es) = requests es"
  "requests (ConsoleError c # es) = requests es"
  "requests (OnSelectSession n ms # es) = requests es"
  "requests (SaveFile n f b # es) = requests es"
  by (simp_all add: requests_def)

lemma selections_simps [simp]:
  "selections [] = []"
  "selections (Http q # es) = selections es"
  "selections (Alert a # es) = selections es"
  "selections (ConsoleError c # es) = selections es"
  "selections (OnSelectSession n ms # es) = (n, ms) # selections es"
  "selections (SaveFile n f b # es) = selections es"
  by (simp_all add: selections_def)

lemma alerts_simps [simp]:
  "alerts [] = []"
  "alerts (Http q # es) = alerts es"
  "alerts (Alert a # es) = a # alerts es"
  "alerts (ConsoleError c # es) = alerts es"
  "alerts (OnSelectSession n ms # es) = alerts es"
  "alerts (SaveFile n f b # es) = alerts es"
  by (simp_all add: alerts_def)

text \<open>
  C2. The auto-title effect changes anything (state or effects) only when the last user
  message and the current session id are both non-empty and the first session of the
  list with that id has a title that is absent, empty or exactly "New Chat"; when that
  session has any other non-empty title, the effect leaves the whole state as it is:
  no title patch is sent and no local title is changed.
\<close>

theorem autoTitle_only_untitled:
  "(autoTitle p r s \<noteq> s \<longrightarrow>
      truthy_str (lastUserMessage p) \<and> truthy_num (currentSessionId p) \<and>
      (\<exists>c y. currentSessionId p = Some c \<and>
             find (\<lambda>z. session_id z = c) (sessions s) = Some y \<and>
             (title y = None \<or> title y = Some [] \<or> title y = Some ''New Chat''))) \<and>
   (currentSessionId p = Some cur \<and>
    find (\<lambda>z. session_id z = cur) (sessions s) = Some x \<and>
    title x = Some t \<and> t \<noteq> [] \<and> t \<noteq> ''New Chat''
      \<longrightarrow> autoTitle p r s = s \<and>
          requests (effects (autoTitle p r s)) = requests (effects s) \<and>
          sessions (autoTitle p r s) = sessions s)"
  by (auto simp: autoTitle_def truthy_str_def split: option.splits if_splits)

text \<open>
  With session 1 (untitled) selected the effect fires; with session 2 ("Trip plan")
  selected it does nothing.
\<close>

theorem autoTitle_only_untitled_witness:
  "autoTitle signed_in (Resolved ()) listed \<noteq> listed \<and>
   truthy_str (lastUserMessage signed_in) \<and>
   truthy_num (currentSessionId signed_in) \<and>
   currentSessionId (signed_in\<lparr> currentSessionId := Some 2 \<rparr>) = Some 2 \<and>
   find (\<lambda>z. session_id z = 2) (sessions listed) = Some session2 \<and>
   title session2 = Some ''Trip plan'' \<and>
   autoTitle (signed_in\<lparr> currentSessionId := Some 2 \<rparr>) (Resolved ()) listed = listed"
  using
    autoTitle_only_untitled [of signed_in "Resolved ()" listed 1 session1 "''Trip plan''"]
    autoTitle_only_untitled
      [of "signed_in\<lparr> currentSessionId := Some 2 \<rparr>" "Resolved ()" listed 2 session2
          "''Trip plan''"]
  by (simp add: session1_def session2_def weather_message_def signed_in_def
                listed_def mounted_def autoTitle_def Let_def emit_def)

text \<open>
  Under the data model's invariant that session ids are unique, no session of the list
  with a custom title is changed by the effect, whichever session is selected.
\<close>

lemma distinct_ids_unique:
  "distinct (map session_id xs) \<Longrightarrow> x \<in> set xs \<Longrightarrow> y \<in> set xs \<Longrightarrow>
   session_id x = session_id y \<Longrightarrow> x = y"
  by (meson distinct_map inj_onD)

lemma autoTitle_keeps_custom_titles:
  assumes d: "distinct (map session_id (sessions s))"
    and i: "i < length (sessions s)"
    and t: "title (sessions s ! i) = Some t" "t \<noteq> []" "t \<noteq> ''New Chat''"
  shows "sessions (autoTitle p r s) ! i = sessions s ! i"
proof (cases "autoTitle p r s = s")
  case True
  then show ?thesis by simp
next
  case False
  then obtain m cur y where
    f: "find (\<lambda>x. session_id x = cur) (sessions s) = Some y"
    and u: "title y = Some ''New Chat'' \<or> \<not> truthy_str (title y)"
    and new: "sessions (autoTitle p r s) =
                map (\<lambda>x. if session_id x = cur then x\<lparr> title := Some (take 40 m) \<rparr> else x)
                    (sessions s)"
    by (auto simp: autoTitle_def Let_def split: option.splits if_splits)
  from f have y: "y \<in> set (sessions s)" "session_id y = cur"
    by (auto simp: find_Some_iff)
  have "session_id (sessions s ! i) \<noteq> cur"
  proof
    assume "session_id (sessions s ! i) = cur"
    with d i y have "sessions s ! i = y"
      by (auto intro: distinct_ids_unique)
    with t u show False by auto
  qed
  with new i show ?thesis by simp
qed

text \<open>
  C3, as the code has it. When the effect fires for a message of more than 40
  characters, every session of the list with the current id gets as title exactly the
  first 40 characters of the message, every other entry of the list is unchanged, and
  the title patch carries the same 40 characters. For the message of the example, with
  session 1 selected, the title of session 1 becomes the 40-character prefix
  "What's the weather tomorrow in Yangon an" and session 2 is unchanged.
\<close>

theorem autoTitle_first_40:
  "(length m > 40 \<and> lastUserMessage p = Some m \<and>
    currentSessionId p = Some cur \<and> cur \<noteq> 0 \<and>
    find (\<lambda>z. session_id z = cur) (sessions s) = Some x \<and>
    (title x = None \<or> title x = Some [] \<or> title x = Some ''New Chat'')
    \<longrightarrow>
      length (sessions (autoTitle p r s)) = length (sessions s) \<and>
      (\<forall>i < length (sessions s).
         (session_id (sessions s ! i) = cur \<longrightarrow>
            sessions (autoTitle p r s) ! i =
              (sessions s ! i)\<lparr> title := Some (take 40 m) \<rparr>) \<and>
         (session_id (sessions s ! i) \<noteq> cur \<longrightarrow>
            sessions (autoTitle p r s) ! i = sessions s ! i)) \<and>
      length (take 40 m) = 40 \<and>
      requests (effects (autoTitle p r s)) =
        requests (effects s) @ [PatchSession (apiBaseUrl p) cur (take 40 m)]) \<and>
   sessions (autoTitle signed_in r' listed) =
     [session1\<lparr> title := Some ''What's the weather tomorrow in Yangon an'' \<rparr>, session2] \<and>
   length ''What's the weather tomorrow in Yangon an'' = 40"
proof (intro conjI)
  show "length m > 40 \<and> lastUserMessage p = Some m \<and>
    currentSessionId p = Some cur \<and> cur \<noteq> 0 \<and>
    find (\<lambda>z. session_id z = cur) (sessions s) = Some x \<and>
    (title x = None \<or> title x = Some [] \<or> title x = Some ''New Chat'')
    \<longrightarrow>
      length (sessions (autoTitle p r s)) = length (sessions s) \<and>
      (\<forall>i < length (sessions s).
         (session_id (sessions s ! i) = cur \<longrightarrow>
            sessions (autoTitle p r s) ! i =
              (sessions s ! i)\<lparr> title := Some (take 40 m) \<rparr>) \<and>
         (session_id (sessions s ! i) \<noteq> cur \<longrightarrow>
            sessions (autoTitle p r s) ! i = sessions s ! i)) \<and>
      length (take 40 m) = 40 \<and>
      requests (effects (autoTitle p r s)) =
        requests (effects s) @ [PatchSession (apiBaseUrl p) cur (take 40 m)]"
    by (auto simp: autoTitle_def Let_def truthy_str_def split: reply.splits option.splits)
next
  show "sessions (autoTitle signed_in r' listed) =
     [session1\<lparr> title := Some ''What's the weather tomorrow in Yangon an'' \<rparr>, session2]"
    by (simp add: autoTitle_def Let_def session1_def session2_def weather_message_def signed_in_def
                listed_def mounted_def)
next
  show "length ''What's the weather tomorrow in Yangon an'' = 40"
    by simp
qed

theorem autoTitle_first_40_witness:
  "length weather_message > 40 \<and>
   lastUserMessage signed_in = Some weather_message \<and>
   currentSessionId signed_in = Some 1 \<and>
   find (\<lambda>z. session_id z = 1) (sessions listed) = Some session1 \<and>
   title session1 = None \<and>
   sessions (autoTitle signed_in (Rejected ''offline'') listed) ! 0 =
     session1\<lparr> title := Some (take 40 weather_message) \<rparr> \<and>
   sessions (autoTitle signed_in (Rejected ''offline'') listed) ! 1 = session2 \<and>
   requests (effects (autoTitle signed_in (Rejected ''offline'') listed)) =
     [PatchSession ''http://localhost:8000'' 1 (take 40 weather_message)]"
  using
    autoTitle_first_40
      [of weather_message signed_in 1 listed session1 "Rejected ''offline''"
          "Rejected ''offline''"]
  by (simp add: session1_def session2_def weather_message_def signed_in_def
                listed_def mounted_def)

text \<open>
  C3 as stated fails on its own example: the prefix it names has 39 characters, and the
  title the code derives from the example's message is not that string.
\<close>

theorem autoTitle_example_prefix_counterexample:
  "length ''What's the weather tomorrow in Yangon a'' = 39 \<and>
   take 40 weather_message \<noteq> ''What's the weather tomorrow in Yangon a'' \<and>
   sessions (autoTitle signed_in (Resolved ()) listed) \<noteq>
     [session1\<lparr> title := Some ''What's the weather tomorrow in Yangon a'' \<rparr>, session2]"
  by (simp add: autoTitle_def Let_def session1_def session2_def weather_message_def signed_in_def
                listed_def mounted_def)

section \<open>Properties of handleSelect\<close>

text \<open>
  C4. For every session id and every answer to the message request, \<^verbatim>\<open>handleSelect\<close>
  calls the selection callback exactly once, with that session id; when the request
  fails, the message list it passes is empty.
\<close>

theorem handleSelect_calls_back_once:
  "(\<exists>ms. selections (effects (handleSelect p sid r s)) =
           selections (effects s) @ [(sid, ms)]) \<and>
   selections (effects (handleSelect p sid (Rejected e) s)) =
     selections (effects s) @ [(sid, [])]"
proof (intro conjI)
  show "\<exists>ms. selections (effects (handleSelect p sid r s)) =
              selections (effects s) @ [(sid, ms)]"
  proof (cases r)
    case (Resolved body)
    then show ?thesis
      by (cases body) (simp_all add: handleSelect_def Let_def)
  next
    case (Rejected e')
    then show ?thesis
      by (simp add: handleSelect_def Let_def)
  qed
next
  show "selections (effects (handleSelect p sid (Rejected e) s)) =
          selections (effects s) @ [(sid, [])]"
    by (simp add: handleSelect_def Let_def)
qed

theorem handleSelect_calls_back_once_witness:
  "selections (effects (handleSelect signed_in 2
       (Resolved (MessageArray [\<lparr> api_role = ''user'', content = ''hello'' \<rparr>])) listed)) =
     [(2, [\<lparr> role = ''user'', msg_text = ''hello'' \<rparr>])] \<and>
   selections (effects (handleSelect signed_in 2 (Rejected ''Network Error'') listed)) =
     [(2, [])]"
  using
    handleSelect_calls_back_once
      [of signed_in 2 "Resolved (MessageArray [\<lparr> api_role = ''user'', content = ''hello'' \<rparr>])"
          listed "''Network Error''"]
  by (simp add: handleSelect_def Let_def to_chat_message_def session1_def session2_def weather_message_def signed_in_def
                listed_def mounted_def)

section \<open>Properties of handleCreate\<close>

lemma effects_fetchSessions:
  "truthy_str (userId p) \<Longrightarrow> userId p = Some u \<Longrightarrow>
   effects (fetchSessions p out s) =
     effects s @ Http (GetSessions (apiBaseUrl p) u) #
       (case out of Failed e \<Rightarrow> [ConsoleError ''Error fetching sessions:''] | _ \<Rightarrow> [])"
  by (cases out)
     (simp_all add: fetchSessions_def fetchSessions_begin_def fetchSessions_settle_def
                    Let_def emit_def)

lemma sessions_fetchSessions_fulfilled:
  "truthy_str (userId p) \<Longrightarrow>
   sessions (fetchSessions p (Fulfilled body) s) =
     (case body of SessionArray xs \<Rightarrow> xs | NotAnArray \<Rightarrow> [])"
  by (simp add: fetchSessions_def Let_def settle_fulfilled_sessions)

lemma handleCreate_created:
  assumes "userId p = Some u" "u \<noteq> []" "n \<noteq> 0"
  shows "handleCreate p (Resolved (Some n)) out s =
           (emit [OnSelectSession n []]
              (fetchSessions p out
                 (emit [Http (PostSession (apiBaseUrl p)
                                [(''user_id'', u), (''title'', ''New Chat'')])]
                    (s\<lparr> creating := True \<rparr>))))
           \<lparr> creating := False \<rparr>"
  using assms by (simp add: handleCreate_def Let_def)

lemma handleCreate_posts_first:
  assumes "userId p = Some u" "u \<noteq> []"
  shows "\<exists>rest. effects (handleCreate p r out s) =
           effects s @ Http (PostSession (apiBaseUrl p)
                               [(''user_id'', u), (''title'', ''New Chat'')]) # rest"
proof (cases r)
  case (Rejected e)
  with assms show ?thesis by (simp add: handleCreate_def Let_def)
next
  case (Resolved sid)
  show ?thesis
  proof (cases "truthy_num sid")
    case False
    with Resolved assms show ?thesis
      by (cases sid) (simp_all add: handleCreate_def Let_def)
  next
    case True
    then obtain n where n: "sid = Some n" "n \<noteq> 0"
      by (cases sid) simp_all
    from assms have "truthy_str (userId p)" by simp
    with Resolved n assms show ?thesis
      by (simp add: handleCreate_created effects_fetchSessions)
  qed
qed

lemma handleCreate_no_id:
  assumes "userId p = Some u" "u \<noteq> []" "sid = None \<or> sid = Some 0"
  shows "handleCreate p (Resolved sid) out s =
           (emit [Http (PostSession (apiBaseUrl p)
                          [(''user_id'', u), (''title'', ''New Chat'')])] s)
           \<lparr> creating := False \<rparr>"
  using assms by (auto simp: handleCreate_def Let_def emit_def)

text \<open>
  C7, as the code has it. Called with a user identity, \<^verbatim>\<open>handleCreate\<close> first sends
  a creation request whose form carries the user id and the title "New Chat". When the
  request succeeds and the response carries a session id other than \<open>0\<close>, it then makes
  one full \<^verbatim>\<open>fetchSessions\<close> request and, once that call has returned, calls the
  selection callback with the new id and an empty message list; the session list is
  then whatever the refresh returned, not the old list with an entry added. When the
  request succeeds and the response carries no session id, or the id \<open>0\<close>, the creation
  request is the only effect: there is no refresh and no call of the selection
  callback, and the state is the one before the call but for the effect (\<open>creating\<close>
  is false again). When the request fails, the failure is logged and nothing else is
  done.
\<close>

theorem handleCreate_refreshes_then_selects:
  "userId p = Some u \<and> u \<noteq> [] \<longrightarrow>
     (\<exists>rest. effects (handleCreate p r out s) =
        effects s @ Http (PostSession (apiBaseUrl p)
                            [(''user_id'', u), (''title'', ''New Chat'')]) # rest) \<and>
     (n \<noteq> 0 \<longrightarrow>
        effects (handleCreate p (Resolved (Some n)) out s) =
          effects s @
          Http (PostSession (apiBaseUrl p) [(''user_id'', u), (''title'', ''New Chat'')]) #
          Http (GetSessions (apiBaseUrl p) u) #
          (case out of Failed e \<Rightarrow> [ConsoleError ''Error fetching sessions:''] | _ \<Rightarrow> []) @
          [OnSelectSession n []] \<and>
        sessions (handleCreate p (Resolved (Some n)) (Fulfilled (SessionArray xs)) s) = xs) \<and>
     (sid = None \<or> sid = Some 0 \<longrightarrow>
        handleCreate p (Resolved sid) out s =
          (emit [Http (PostSession (apiBaseUrl p)
                         [(''user_id'', u), (''title'', ''New Chat'')])] s)
          \<lparr> creating := False \<rparr> \<and>
        effects (handleCreate p (Resolved sid) out s) =
          effects s @ [Http (PostSession (apiBaseUrl p)
                              [(''user_id'', u), (''title'', ''New Chat'')])] \<and>
        selections (effects (handleCreate p (Resolved sid) out s)) =
          selections (effects s) \<and>
        sessions (handleCreate p (Resolved sid) out s) = sessions s) \<and>
     effects (handleCreate p (Rejected e') out s) =
       effects s @ [Http (PostSession (apiBaseUrl p)
                           [(''user_id'', u), (''title'', ''New Chat'')]),
                    ConsoleError ''Error creating new chat session:'']"
proof (intro impI conjI)
  assume a: "userId p = Some u \<and> u \<noteq> []"
  then show "\<exists>rest. effects (handleCreate p r out s) =
        effects s @ Http (PostSession (apiBaseUrl p)
                            [(''user_id'', u), (''title'', ''New Chat'')]) # rest"
    by (simp add: handleCreate_posts_first)
next
  assume a: "userId p = Some u \<and> u \<noteq> []" and n: "n \<noteq> 0"
  from a have t: "truthy_str (userId p)" by simp
  from a n t show "effects (handleCreate p (Resolved (Some n)) out s) =
          effects s @
          Http (PostSession (apiBaseUrl p) [(''user_id'', u), (''title'', ''New Chat'')]) #
          Http (GetSessions (apiBaseUrl p) u) #
          (case out of Failed e \<Rightarrow> [ConsoleError ''Error fetching sessions:''] | _ \<Rightarrow> []) @
          [OnSelectSession n []]"
    by (simp add: handleCreate_created effects_fetchSessions)
next
  assume a: "userId p = Some u \<and> u \<noteq> []" and n: "n \<noteq> 0"
  from a have t: "truthy_str (userId p)" by simp
  from a n t
  show "sessions (handleCreate p (Resolved (Some n)) (Fulfilled (SessionArray xs)) s) = xs"
    by (simp add: handleCreate_created sessions_fetchSessions_fulfilled)
next
  assume a: "userId p = Some u \<and> u \<noteq> []" and f: "sid = None \<or> sid = Some 0"
  then show "handleCreate p (Resolved sid) out s =
          (emit [Http (PostSession (apiBaseUrl p)
                         [(''user_id'', u), (''title'', ''New Chat'')])] s)
          \<lparr> creating := False \<rparr>"
    by (simp add: handleCreate_no_id)
next
  assume a: "userId p = Some u \<and> u \<noteq> []" and f: "sid = None \<or> sid = Some 0"
  then show "effects (handleCreate p (Resolved sid) out s) =
          effects s @ [Http (PostSession (apiBaseUrl p)
                              [(''user_id'', u), (''title'', ''New Chat'')])]"
    by (simp add: handleCreate_no_id)
next
  assume a: "userId p = Some u \<and> u \<noteq> []" and f: "sid = None \<or> sid = Some 0"
  then show "selections (effects (handleCreate p (Resolved sid) out s)) =
          selections (effects s)"
    by (simp add: handleCreate_no_id)
next
  assume a: "userId p = Some u \<and> u \<noteq> []" and f: "sid = None \<or> sid = Some 0"
  then show "sessions (handleCreate p (Resolved sid) out s) = sessions s"
    by (simp add: handleCreate_no_id)
next
  assume a: "userId p = Some u \<and> u \<noteq> []"
  then show "effects (handleCreate p (Rejected e') out s) =
       effects s @ [Http (PostSession (apiBaseUrl p)
                           [(''user_id'', u), (''title'', ''New Chat'')]),
                    ConsoleError ''Error creating new chat session:'']"
    by (simp add: handleCreate_def Let_def)
qed

theorem handleCreate_refreshes_then_selects_witness:
  "userId signed_in = Some ''u1'' \<and>
   effects (handleCreate signed_in (Resolved (Some 3)) (Fulfilled (SessionArray [session2]))
              listed) =
     [Http (PostSession ''http://localhost:8000''
              [(''user_id'', ''u1''), (''title'', ''New Chat'')]),
      Http (GetSessions ''http://localhost:8000'' ''u1''),
      OnSelectSession 3 []] \<and>
   sessions (handleCreate signed_in (Resolved (Some 3)) (Fulfilled (SessionArray [session2]))
               listed) = [session2] \<and>
   handleCreate signed_in (Resolved (Some 0)) (Fulfilled (SessionArray [session2])) listed =
     (emit [Http (PostSession ''http://localhost:8000''
                    [(''user_id'', ''u1''), (''title'', ''New Chat'')])] listed)
     \<lparr> creating := False \<rparr> \<and>
   selections (effects (handleCreate signed_in (Resolved None)
                          (Fulfilled (SessionArray [session2])) listed)) = [] \<and>
   sessions (handleCreate signed_in (Resolved None) (Fulfilled (SessionArray [session2]))
               listed) = [session1, session2] \<and>
   effects (handleCreate signed_in (Rejected ''Network Error'')
              (Fulfilled (SessionArray [session2])) listed) =
     [Http (PostSession ''http://localhost:8000''
              [(''user_id'', ''u1''), (''title'', ''New Chat'')]),
      ConsoleError ''Error creating new chat session:'']"
  using
    handleCreate_refreshes_then_selects
      [of signed_in "''u1''" "Resolved (Some 3)" "Fulfilled (SessionArray [session2])"
          listed 3 "[session2]" "Some 0" "''Network Error''"]
    handleCreate_refreshes_then_selects
      [of signed_in "''u1''" "Resolved (Some 3)" "Fulfilled (SessionArray [session2])"
          listed 3 "[session2]" None "''Network Error''"]
  by (simp add: session1_def session2_def weather_message_def signed_in_def
                listed_def mounted_def)

text \<open>
  C7 as stated fails where the creation request succeeds and the response carries the
  session id \<open>0\<close>, or no session id: the guard \<^verbatim>\<open>if (sid)\<close> skips both the refresh
  and the callback, and the only request made is the creation request.
\<close>

theorem handleCreate_falsy_id_counterexample:
  "effects (handleCreate signed_in (Resolved (Some 0)) (Fulfilled (SessionArray [session2]))
              listed) =
     [Http (PostSession ''http://localhost:8000''
              [(''user_id'', ''u1''), (''title'', ''New Chat'')])] \<and>
   sessions (handleCreate signed_in (Resolved (Some 0)) (Fulfilled (SessionArray [session2]))
               listed) = [session1, session2] \<and>
   effects (handleCreate signed_in (Resolved None) (Fulfilled (SessionArray [session2]))
              listed) =
     [Http (PostSession ''http://localhost:8000''
              [(''user_id'', ''u1''), (''title'', ''New Chat'')])]"
  by (simp add: handleCreate_def Let_def emit_def signed_in_def listed_def mounted_def)

text \<open>
  C8. Called without a user identity, \<^verbatim>\<open>handleCreate\<close> returns the state it was given,
  every field of it, and so makes no remote call.
\<close>

theorem handleCreate_without_user:
  "\<not> truthy_str (userId p) \<longrightarrow>
     handleCreate p r out s = s \<and>
     requests (effects (handleCreate p r out s)) = requests (effects s)"
  by (auto simp: handleCreate_def truthy_str_def split: option.splits)

theorem handleCreate_without_user_witness:
  "\<not> truthy_str (userId signed_out) \<and>
   handleCreate signed_out (Resolved (Some 3)) (Fulfilled (SessionArray [session2])) listed =
     listed \<and>
   requests (effects (handleCreate signed_out (Resolved (Some 3))
                        (Fulfilled (SessionArray [session2])) listed)) = []"
  using
    handleCreate_without_user
      [of signed_out "Resolved (Some 3)" "Fulfilled (SessionArray [session2])" listed]
  by (simp add: signed_out_def signed_in_def listed_def mounted_def)

section \<open>Properties of handleDownload\<close>

text \<open>
  C9. With no session selected, \<^verbatim>\<open>handleDownload\<close> only shows the prompt to select a
  session: it makes no request. With a session selected and the transcript request
  failing, it makes that one request and no other, logs, and shows the same fixed
  message whatever the failure was.
\<close>

theorem handleDownload_prompt_and_failure:
  "(\<not> truthy_num (currentSessionId p) \<longrightarrow>
      effects (handleDownload f p r s) =
        effects s @ [Alert ''Please select a chat session to download.'']) \<and>
   (currentSessionId p = Some sid \<and> sid \<noteq> 0 \<longrightarrow>
      effects (handleDownload f p (Rejected e) s) =
        effects s @ [Http (GetDownload (apiBaseUrl p) sid f),
                     ConsoleError ''Error downloading file:'',
                     Alert ''Failed to download chat history.''])"
  by (auto simp: handleDownload_def truthy_num_def Let_def split: option.splits)

theorem handleDownload_prompt_and_failure_witness:
  "\<not> truthy_num (currentSessionId (signed_in\<lparr> currentSessionId := None \<rparr>)) \<and>
   effects (handleDownload pdf (signed_in\<lparr> currentSessionId := None \<rparr>)
              (Resolved ''%PDF'') listed) =
     [Alert ''Please select a chat session to download.''] \<and>
   currentSessionId signed_in = Some 1 \<and>
   effects (handleDownload csv signed_in (Rejected ''Network Error'') listed) =
     [Http (GetDownload ''http://localhost:8000'' 1 csv),
      ConsoleError ''Error downloading file:'',
      Alert ''Failed to download chat history.'']"
  using
    handleDownload_prompt_and_failure
      [of "signed_in\<lparr> currentSessionId := None \<rparr>" pdf "Resolved ''%PDF''" listed 1
          "''Network Error''"]
    handleDownload_prompt_and_failure
      [of signed_in csv "Resolved ''%PDF''" listed 1 "''Network Error''"]
  by (simp add: signed_in_def listed_def mounted_def)

section \<open>Properties of the mail helper\<close>

text \<open>
  C10. When \<^verbatim>\<open>MAIL_PORT\<close> is unset or empty, the transporter is built with port
  \<open>587\<close>; and the message \<^verbatim>\<open>sendEmail\<close> hands to the transport has as its from-address
  the value of \<^verbatim>\<open>MAIL_FROM\<close>, whatever the recipient, subject, text and html body passed
  by the caller.
\<close>

theorem mail_port_default_and_from:
  "(e ''MAIL_PORT'' = None \<or> e ''MAIL_PORT'' = Some [] \<longrightarrow>
      port (transporter e) = NumberOfLiteral 587) \<and>
   from_addr (fst (sendEmail e' to subj txt htm r)) = e' ''MAIL_FROM''"
  by (auto simp: transporter_def sendEmail_def)

theorem mail_port_default_and_from_witness:
  "port (transporter [''MAIL_HOST'' \<mapsto> ''smtp.example.org'', ''MAIL_PORT'' \<mapsto> []]) =
     NumberOfLiteral 587 \<and>
   port (transporter [''MAIL_HOST'' \<mapsto> ''smtp.example.org'']) = NumberOfLiteral 587 \<and>
   from_addr (fst (sendEmail [''MAIL_FROM'' \<mapsto> ''noreply@example.org'']
                     ''a@example.org'' ''Hi'' ''Hello'' None (Resolved ()))) =
     Some ''noreply@example.org''"
  using
    mail_port_default_and_from
      [of "[''MAIL_HOST'' \<mapsto> ''smtp.example.org'', ''MAIL_PORT'' \<mapsto> []]"
          "[''MAIL_FROM'' \<mapsto> ''noreply@example.org'']"
          "''a@example.org''" "''Hi''" "''Hello''" None "Resolved ()"]
    mail_port_default_and_from
      [of "[''MAIL_HOST'' \<mapsto> ''smtp.example.org'']"
          "[''MAIL_FROM'' \<mapsto> ''noreply@example.org'']"
          "''a@example.org''" "''Hi''" "''Hello''" None "Resolved ()"]
  by simp

end
